theory Spec2Isabelle
  imports Main
begin

section \<open>Values, objects and the store\<close>

text \<open>
  The library wraps Python's \<^verbatim>\<open>list\<close> and \<^verbatim>\<open>dict\<close> in two classes, \<^verbatim>\<open>List\<close> and
  \<^verbatim>\<open>Dict\<close>. Their instances are mutable objects, and several methods write to the receiver,
  so objects live in a store and are named by their address.

  A Python value is one of the constructors of \<open>val\<close>. \<open>VBlank\<close> is the class \<^verbatim>\<open>Blank\<close>
  (bound to \<^verbatim>\<open>_\<close>), the placeholder of the partial syntax. \<open>VList a\<close> and \<open>VDict a\<close> are
  references to the \<^verbatim>\<open>List\<close> and the \<^verbatim>\<open>Dict\<close> object at address \<open>a\<close>.
\<close>

datatype val =
    VNone
  | VBool bool
  | VInt int
  | VStr string
  | VBlank
  | VList nat
  | VDict nat

text \<open>
  Keys of a \<^verbatim>\<open>Dict\<close> are hashable values; the type leaves out the unhashable ones
  (\<^verbatim>\<open>list\<close> and \<^verbatim>\<open>dict\<close> objects), on which \<^verbatim>\<open>dict\<close> raises TypeError.
\<close>

datatype key = KNone | KInt int | KStr string

fun val_of_key :: "key \<Rightarrow> val" where
  "val_of_key KNone = VNone"
| "val_of_key (KInt i) = VInt i"
| "val_of_key (KStr s) = VStr s"

type_synonym kwargs = "(string \<times> val) list"

text \<open>
  A function supplied by the caller takes its positional arguments and its keyword
  arguments and returns a result of type \<open>'r\<close>. It is pure: its result depends on the
  argument values only. Where the library tests a result with \<^verbatim>\<open>if\<close>, the function is
  taken with \<open>'r = bool\<close>: the truth value Python gives to what it returns.
\<close>

type_synonym 'r fn = "val list \<Rightarrow> kwargs \<Rightarrow> 'r"

record list_obj =
  list_items :: "val list"
  list_last_value :: "val option"

record dict_obj =
  dict_entries :: "(key \<times> val) list"
  moka_save :: bool
  dict_last_value :: "val option"

text \<open>
  The store: the \<^verbatim>\<open>List\<close> objects and the \<^verbatim>\<open>Dict\<close> objects by address, and for each class
  the next free address. An object exists when its address is below the next free one.
\<close>

record heap =
  list_objs :: "nat \<Rightarrow> list_obj"
  dict_objs :: "nat \<Rightarrow> dict_obj"
  next_list :: nat
  next_dict :: nat

text \<open>Writing the elements of the \<^verbatim>\<open>List\<close> at an address, in place.\<close>

definition set_list_items :: "nat \<Rightarrow> val list \<Rightarrow> heap \<Rightarrow> heap" where
  "set_list_items a xs h =
     h\<lparr>list_objs := (list_objs h)(a := (list_objs h a)\<lparr>list_items := xs\<rparr>)\<rparr>"

section \<open>The binder: \<^verbatim>\<open>List._f\<close>\<close>

text \<open>
  \<^verbatim>\<open>_f\<close> returns one of three closures. The third, \<^verbatim>\<open>tmp\<close>, captures the list \<^verbatim>\<open>args\<close> and
  writes to it on every call, so a closure is a value with its captured variables, and
  calling it returns the result together with the closure afterwards.
\<close>

datatype 'r callable =
    Lam1 "'r fn"
  | LamArgs "'r fn" "val list" kwargs
  | Tmp "'r fn" "val list" nat kwargs

text \<open>
  \<^verbatim>\<open>args.index(Blank)\<close>: the first position holding the value. It is only called after the
  test \<^verbatim>\<open>Blank not in args\<close> has failed, which excludes its ValueError.
\<close>

fun index :: "val list \<Rightarrow> val \<Rightarrow> nat" where
  "index [] v = 0"
| "index (x # xs) v = (if x = v then 0 else Suc (index xs v))"

definition List_f :: "'r fn \<Rightarrow> val list \<Rightarrow> kwargs \<Rightarrow> 'r callable" where
  "List_f f args kwargs =
     (if args = [] \<and> kwargs = [] then Lam1 f
      else if VBlank \<notin> set args then LamArgs f args kwargs
      else Tmp f args (index args VBlank) kwargs)"

fun call :: "'r callable \<Rightarrow> val \<Rightarrow> 'r \<times> 'r callable" where
  "call (Lam1 f) x = (f [x] [], Lam1 f)"
| "call (LamArgs f args kwargs) x = (f (x # args) kwargs, LamArgs f args kwargs)"
| "call (Tmp f args pos kwargs) x =
     (let args' = args[pos := x] in (f args' kwargs, Tmp f args' pos kwargs))"

text \<open>Calling a closure several times in a row, each call on the closure the last one left.\<close>

fun calls :: "'r callable \<Rightarrow> val list \<Rightarrow> 'r list \<times> 'r callable" where
  "calls c [] = ([], c)"
| "calls c (x # xs) =
     (let (r, c') = call c x; (rs, c'') = calls c' xs in (r # rs, c''))"

text \<open>
  Two functions a caller may pass, from the examples of the documentation. Integer
  division is Python 2's, which rounds down; \<open>None\<close> is the exception raised on other
  arguments.
\<close>

definition add_fn :: "val option fn" where
  "add_fn args kwargs =
     (case args of [VInt a, VInt b] \<Rightarrow> Some (VInt (a + b)) | _ \<Rightarrow> None)"

definition divide_fn :: "val option fn" where
  "divide_fn args kwargs =
     (case args of
        [VInt a, VInt b] \<Rightarrow> if b = 0 then None else Some (VInt (a div b))
      | _ \<Rightarrow> None)"

text \<open>
  A predicate and its negation \<^verbatim>\<open>lambda *a, **kw: not pred(*a, **kw)\<close>, and two more
  functions for the examples: the successor, and a predicate that holds of nothing.
\<close>

definition not_fn :: "bool fn \<Rightarrow> bool fn" where
  "not_fn pred = (\<lambda>args kwargs. \<not> pred args kwargs)"

definition inc_fn :: "val fn" where
  "inc_fn args kwargs = (case args of [VInt a] \<Rightarrow> VInt (a + 1) | _ \<Rightarrow> VNone)"

definition positive_fn :: "bool fn" where
  "positive_fn args kwargs = (case args of VInt a # _ \<Rightarrow> 0 < a | _ \<Rightarrow> False)"

definition never_fn :: "bool fn" where
  "never_fn args kwargs = False"

section \<open>\<^verbatim>\<open>List\<close>: the sequence chain\<close>

text \<open>
  \<^verbatim>\<open>List(iterable)\<close> makes a new object from the elements of the iterable; a new instance
  has no \<^verbatim>\<open>last_value\<close> attribute yet. \<^verbatim>\<open>clone\<close> is \<^verbatim>\<open>List(self)\<close>.
\<close>

definition List_new :: "val list \<Rightarrow> heap \<Rightarrow> nat \<times> heap" where
  "List_new xs h =
     (next_list h,
      h\<lparr>list_objs := (list_objs h)
           (next_list h := \<lparr>list_items = xs, list_last_value = None\<rparr>),
        next_list := Suc (next_list h)\<rparr>)"

definition List_clone :: "nat \<Rightarrow> heap \<Rightarrow> nat \<times> heap" where
  "List_clone self h = List_new (list_items (list_objs h self)) h"

text \<open>
  \<^verbatim>\<open>_moka_assign\<close>: \<^verbatim>\<open>self[:] = items; return self\<close>. The slice assignment reads the whole
  iterable first and then replaces the elements of the receiver.
\<close>

definition List_moka_assign :: "nat \<Rightarrow> val list \<Rightarrow> heap \<Rightarrow> nat \<times> heap" where
  "List_moka_assign self items h = (self, set_list_items self items h)"

text \<open>
  \<^verbatim>\<open>do\<close> and \<^verbatim>\<open>tee\<close> call the bound function on the receiver itself. \<^verbatim>\<open>do\<close> writes nothing
  and returns the result; \<^verbatim>\<open>tee\<close> stores the result in \<^verbatim>\<open>last_value\<close> and returns the receiver.
\<close>

definition List_do :: "'r fn \<Rightarrow> val list \<Rightarrow> kwargs \<Rightarrow> nat \<Rightarrow> heap \<Rightarrow> 'r" where
  "List_do f args kwargs self h = fst (call (List_f f args kwargs) (VList self))"

definition List_tee :: "val fn \<Rightarrow> val list \<Rightarrow> kwargs \<Rightarrow> nat \<Rightarrow> heap \<Rightarrow> nat \<times> heap" where
  "List_tee f args kwargs self h =
     (let r = fst (call (List_f f args kwargs) (VList self))
      in (self, h\<lparr>list_objs := (list_objs h)
                     (self := (list_objs h self)\<lparr>list_last_value := Some r\<rparr>)\<rparr>))"

text \<open>\<^verbatim>\<open>map\<close>: the generator \<^verbatim>\<open>f(x) for x in self\<close> is \<open>calls\<close> on the elements.\<close>

definition List_map :: "val fn \<Rightarrow> val list \<Rightarrow> kwargs \<Rightarrow> nat \<Rightarrow> heap \<Rightarrow> nat \<times> heap" where
  "List_map f args kwargs self h =
     (let c = List_f f args kwargs
      in List_moka_assign self (fst (calls c (list_items (list_objs h self)))) h)"

text \<open>
  The generators of \<^verbatim>\<open>keep\<close> and \<^verbatim>\<open>rem\<close>: \<^verbatim>\<open>x for x in self if f(x)\<close> and
  \<^verbatim>\<open>x for x in self if not f(x)\<close>.
\<close>

fun keep_gen :: "bool callable \<Rightarrow> val list \<Rightarrow> val list \<times> bool callable" where
  "keep_gen c [] = ([], c)"
| "keep_gen c (x # xs) =
     (let (r, c') = call c x; (ys, c'') = keep_gen c' xs
      in (if r then x # ys else ys, c''))"

fun rem_gen :: "bool callable \<Rightarrow> val list \<Rightarrow> val list \<times> bool callable" where
  "rem_gen c [] = ([], c)"
| "rem_gen c (x # xs) =
     (let (r, c') = call c x; (ys, c'') = rem_gen c' xs
      in (if \<not> r then x # ys else ys, c''))"

definition List_keep :: "bool fn \<Rightarrow> val list \<Rightarrow> kwargs \<Rightarrow> nat \<Rightarrow> heap \<Rightarrow> nat \<times> heap" where
  "List_keep f args kwargs self h =
     (let c = List_f f args kwargs
      in List_moka_assign self (fst (keep_gen c (list_items (list_objs h self)))) h)"

definition List_rem :: "bool fn \<Rightarrow> val list \<Rightarrow> kwargs \<Rightarrow> nat \<Rightarrow> heap \<Rightarrow> nat \<times> heap" where
  "List_rem f args kwargs self h =
     (let c = List_f f args kwargs
      in List_moka_assign self (fst (rem_gen c (list_items (list_objs h self)))) h)"

text \<open>
  \<^verbatim>\<open>empty\<close> and \<^verbatim>\<open>count\<close> test \<^verbatim>\<open>not args and not kwargs\<close>, where \<^verbatim>\<open>args\<close> holds the function
  too: the argument is \<open>None\<close> for a call with no argument, and the function with its extra
  arguments otherwise. The loops return from inside, as the source does.
\<close>

fun empty_loop :: "bool callable \<Rightarrow> val list \<Rightarrow> bool" where
  "empty_loop c [] = True"
| "empty_loop c (x # xs) =
     (let (r, c') = call c x in if r then empty_loop c' xs else False)"

definition List_empty ::
  "(bool fn \<times> val list \<times> kwargs) option \<Rightarrow> nat \<Rightarrow> heap \<Rightarrow> bool" where
  "List_empty p self h =
     (case p of
        None \<Rightarrow> \<not> (list_items (list_objs h self) \<noteq> [])
      | Some (f, args, kwargs) \<Rightarrow>
          empty_loop (List_f f args kwargs) (list_items (list_objs h self)))"

fun List_count ::
  "(bool fn \<times> val list \<times> kwargs) option \<Rightarrow> nat \<Rightarrow> heap \<Rightarrow> nat \<times> heap" where
  "List_count None self h = (length (list_items (list_objs h self)), h)"
| "List_count (Some (f, args, kwargs)) self h =
     (let (c, h1) = List_clone self h;
          (k, h2) = List_keep f args kwargs c h1
      in List_count None k h2)"

text \<open>\<^verbatim>\<open>find\<close> falls off the end of the loop when nothing matches, which returns \<^verbatim>\<open>None\<close>.\<close>

fun find_loop :: "bool callable \<Rightarrow> val list \<Rightarrow> val" where
  "find_loop c [] = VNone"
| "find_loop c (x # xs) =
     (let (r, c') = call c x in if r then x else find_loop c' xs)"

definition List_find :: "bool fn \<Rightarrow> val list \<Rightarrow> kwargs \<Rightarrow> nat \<Rightarrow> heap \<Rightarrow> val" where
  "List_find f args kwargs self h =
     find_loop (List_f f args kwargs) (list_items (list_objs h self))"

fun some_loop :: "bool callable \<Rightarrow> val list \<Rightarrow> bool" where
  "some_loop c [] = False"
| "some_loop c (x # xs) =
     (let (r, c') = call c x in if r then True else some_loop c' xs)"

definition List_some :: "bool fn \<Rightarrow> val list \<Rightarrow> kwargs \<Rightarrow> nat \<Rightarrow> heap \<Rightarrow> bool" where
  "List_some f args kwargs self h =
     some_loop (List_f f args kwargs) (list_items (list_objs h self))"

fun all_loop :: "bool callable \<Rightarrow> val list \<Rightarrow> bool" where
  "all_loop c [] = True"
| "all_loop c (x # xs) =
     (let (r, c') = call c x in if \<not> r then False else all_loop c' xs)"

definition List_all :: "bool fn \<Rightarrow> val list \<Rightarrow> kwargs \<Rightarrow> nat \<Rightarrow> heap \<Rightarrow> bool" where
  "List_all f args kwargs self h =
     all_loop (List_f f args kwargs) (list_items (list_objs h self))"

subsection \<open>The proxied methods of \<^verbatim>\<open>list\<close>\<close>







section \<open>\<^verbatim>\<open>Dict\<close>: the mapping chain\<close>

text \<open>
  The entries of a \<^verbatim>\<open>dict\<close> are kept in insertion order, one per key. \<^verbatim>\<open>d[k] = v\<close> replaces
  the value of an existing key where it stands and appends a new key at the end;
  \<^verbatim>\<open>dict(items)\<close> stores the pairs one after the other, so a later pair wins over an
  earlier one with the same key.
\<close>

fun dict_setitem :: "key \<Rightarrow> val \<Rightarrow> (key \<times> val) list \<Rightarrow> (key \<times> val) list" where
  "dict_setitem k v [] = [(k, v)]"
| "dict_setitem k v ((k', v') # es) =
     (if k' = k then (k', v) # es else (k', v') # dict_setitem k v es)"

definition dict_of_items :: "(key \<times> val) list \<Rightarrow> (key \<times> val) list" where
  "dict_of_items items = foldl (\<lambda>d (k, v). dict_setitem k v d) [] items"

text \<open>
  \<^verbatim>\<open>Dict.__init__\<close> sets \<^verbatim>\<open>_moka_save\<close> to \<^verbatim>\<open>False\<close> and hands its arguments to
  \<^verbatim>\<open>dict.__init__\<close>. \<^verbatim>\<open>clone\<close> is \<^verbatim>\<open>Dict(self)\<close>.
\<close>

definition Dict_init :: "(key \<times> val) list \<Rightarrow> heap \<Rightarrow> nat \<times> heap" where
  "Dict_init items h =
     (next_dict h,
      h\<lparr>dict_objs := (dict_objs h)
           (next_dict h := \<lparr>dict_entries = dict_of_items items, moka_save = False,
                            dict_last_value = None\<rparr>),
        next_dict := Suc (next_dict h)\<rparr>)"

definition Dict_clone :: "nat \<Rightarrow> heap \<Rightarrow> nat \<times> heap" where
  "Dict_clone self h = Dict_init (dict_entries (dict_objs h self)) h"

text \<open>
  \<^verbatim>\<open>Dict._f\<close> has no placeholder: \<^verbatim>\<open>tmp(x, y)\<close> is \<^verbatim>\<open>f(x, y, *args, **kwargs)\<close>.
\<close>

definition Dict_f :: "'r fn \<Rightarrow> val list \<Rightarrow> kwargs \<Rightarrow> key \<Rightarrow> val \<Rightarrow> 'r" where
  "Dict_f f args kwargs = (\<lambda>x y. f (val_of_key x # y # args) kwargs)"

text \<open>
  \<^verbatim>\<open>Dict._moka_assign\<close>: with \<^verbatim>\<open>_moka_save\<close> set the body is \<^verbatim>\<open>pass\<close>, so the method returns
  \<^verbatim>\<open>None\<close> and the generator it was given is never run; otherwise it returns \<^verbatim>\<open>Dict(items)\<close>.
\<close>

definition Dict_moka_assign :: "nat \<Rightarrow> (key \<times> val) list \<Rightarrow> heap \<Rightarrow> nat option \<times> heap" where
  "Dict_moka_assign self items h =
     (if moka_save (dict_objs h self) then (None, h)
      else (let (d, h') = Dict_init items h in (Some d, h')))"

text \<open>
  In \<^verbatim>\<open>map\<close> the function returns the new pair; a result that is not a pair makes
  \<^verbatim>\<open>dict\<close> raise, which the result type \<open>key \<times> val\<close> leaves out.
\<close>

definition Dict_map ::
  "(key \<times> val) fn \<Rightarrow> val list \<Rightarrow> kwargs \<Rightarrow> nat \<Rightarrow> heap \<Rightarrow> nat option \<times> heap" where
  "Dict_map f args kwargs self h =
     (let g = Dict_f f args kwargs
      in Dict_moka_assign self
           (map (\<lambda>(x, y). g x y) (dict_entries (dict_objs h self))) h)"

definition Dict_keep ::
  "bool fn \<Rightarrow> val list \<Rightarrow> kwargs \<Rightarrow> nat \<Rightarrow> heap \<Rightarrow> nat option \<times> heap" where
  "Dict_keep f args kwargs self h =
     (let g = Dict_f f args kwargs
      in Dict_moka_assign self
           (filter (\<lambda>(x, y). g x y) (dict_entries (dict_objs h self))) h)"

definition Dict_rem ::
  "bool fn \<Rightarrow> val list \<Rightarrow> kwargs \<Rightarrow> nat \<Rightarrow> heap \<Rightarrow> nat option \<times> heap" where
  "Dict_rem f args kwargs self h =
     (let g = Dict_f f args kwargs
      in Dict_moka_assign self
           (filter (\<lambda>(x, y). \<not> g x y) (dict_entries (dict_objs h self))) h)"

text \<open>
  \<^verbatim>\<open>Dict.do\<close>: \<^verbatim>\<open>self.last_value = function(self, *args, **kwargs); return self\<close>.
\<close>

definition Dict_do :: "val fn \<Rightarrow> val list \<Rightarrow> kwargs \<Rightarrow> nat \<Rightarrow> heap \<Rightarrow> nat \<times> heap" where
  "Dict_do function args kwargs self h =
     (let r = function (VDict self # args) kwargs
      in (self, h\<lparr>dict_objs := (dict_objs h)
                     (self := (dict_objs h self)\<lparr>dict_last_value := Some r\<rparr>)\<rparr>))"

section \<open>Example stores\<close>

text \<open>
  The store with no object; the store after \<^verbatim>\<open>List([1, 2])\<close>, which is the \<^verbatim>\<open>List\<close> at
  address 0; that store after \<^verbatim>\<open>d = Dict({1: 5})\<close>, which is the \<^verbatim>\<open>Dict\<close> at address 0; and
  the last one after \<^verbatim>\<open>d._moka_save = True\<close>.
\<close>

definition heap_empty :: heap where
  "heap_empty =
     \<lparr>list_objs = (\<lambda>_. \<lparr>list_items = [], list_last_value = None\<rparr>),
      dict_objs = (\<lambda>_. \<lparr>dict_entries = [], moka_save = False, dict_last_value = None\<rparr>),
      next_list = 0, next_dict = 0\<rparr>"

definition heap_list12 :: heap where
  "heap_list12 = snd (List_new [VInt 1, VInt 2] heap_empty)"

definition heap_dict15 :: heap where
  "heap_dict15 = snd (Dict_init [(KInt 1, VInt 5)] heap_list12)"

definition set_moka_save :: "nat \<Rightarrow> bool \<Rightarrow> heap \<Rightarrow> heap" where
  "set_moka_save a b h =
     h\<lparr>dict_objs := (dict_objs h)(a := (dict_objs h a)\<lparr>moka_save := b\<rparr>)\<rparr>"

definition heap_dict15_saved :: heap where
  "heap_dict15_saved = set_moka_save 0 True heap_dict15"

definition const_none_fn :: "val fn" where
  "const_none_fn args kwargs = VNone"

section \<open>Properties of the binder\<close>

lemma index_less: "v \<in> set xs \<Longrightarrow> index xs v < length xs"
  by (induction xs) auto

lemma index_nth: "v \<in> set xs \<Longrightarrow> xs ! index xs v = v"
  by (induction xs) auto

lemma index_first: "i < index xs v \<Longrightarrow> xs ! i \<noteq> v"
proof (induction xs arbitrary: i)
  case Nil
  then show ?case by simp
next
  case (Cons x xs)
  then show ?case by (cases i) (auto split: if_splits)
qed

lemma call_again: "fst (call (snd (call c y)) x) = fst (call c x)"
  by (cases c) (simp_all add: Let_def)

lemma calls_map: "fst (calls c xs) = map (\<lambda>x. fst (call c x)) xs"
proof (induction xs arbitrary: c)
  case Nil
  show ?case by simp
next
  case (Cons y ys)
  have "fst (calls (snd (call c y)) ys) = map (\<lambda>x. fst (call c x)) ys"
    by (simp add: Cons.IH call_again)
  then show ?case by (simp add: split_beta Let_def)
qed

lemma keep_gen_filter: "fst (keep_gen c xs) = filter (\<lambda>x. fst (call c x)) xs"
proof (induction xs arbitrary: c)
  case Nil
  show ?case by simp
next
  case (Cons y ys)
  have "fst (keep_gen (snd (call c y)) ys) = filter (\<lambda>x. fst (call c x)) ys"
    by (simp add: Cons.IH call_again)
  then show ?case by (simp add: split_beta Let_def)
qed

lemma rem_gen_filter: "fst (rem_gen c xs) = filter (\<lambda>x. \<not> fst (call c x)) xs"
proof (induction xs arbitrary: c)
  case Nil
  show ?case by simp
next
  case (Cons y ys)
  have "fst (rem_gen (snd (call c y)) ys) = filter (\<lambda>x. \<not> fst (call c x)) ys"
    by (simp add: Cons.IH call_again)
  then show ?case by (simp add: split_beta Let_def)
qed

lemma empty_loop_iff: "empty_loop c xs \<longleftrightarrow> (\<forall>x\<in>set xs. fst (call c x))"
proof (induction xs arbitrary: c)
  case Nil
  show ?case by simp
next
  case (Cons y ys)
  have "empty_loop (snd (call c y)) ys \<longleftrightarrow> (\<forall>x\<in>set ys. fst (call c x))"
    by (simp add: Cons.IH call_again)
  then show ?case by (simp add: split_beta Let_def)
qed

lemma all_loop_iff: "all_loop c xs \<longleftrightarrow> (\<forall>x\<in>set xs. fst (call c x))"
proof (induction xs arbitrary: c)
  case Nil
  show ?case by simp
next
  case (Cons y ys)
  have "all_loop (snd (call c y)) ys \<longleftrightarrow> (\<forall>x\<in>set ys. fst (call c x))"
    by (simp add: Cons.IH call_again)
  then show ?case by (simp add: split_beta Let_def)
qed

lemma some_loop_iff: "some_loop c xs \<longleftrightarrow> (\<exists>x\<in>set xs. fst (call c x))"
proof (induction xs arbitrary: c)
  case Nil
  show ?case by simp
next
  case (Cons y ys)
  have "some_loop (snd (call c y)) ys \<longleftrightarrow> (\<exists>x\<in>set ys. fst (call c x))"
    by (simp add: Cons.IH call_again)
  then show ?case by (simp add: split_beta Let_def)
qed

lemma find_loop_none: "\<forall>x\<in>set xs. \<not> fst (call c x) \<Longrightarrow> find_loop c xs = VNone"
proof (induction xs arbitrary: c)
  case Nil
  show ?case by simp
next
  case (Cons y ys)
  have "\<forall>x\<in>set ys. \<not> fst (call (snd (call c y)) x)"
    using Cons.prems by (simp add: call_again)
  then have "find_loop (snd (call c y)) ys = VNone" by (rule Cons.IH)
  with Cons.prems show ?case by (simp add: split_beta Let_def)
qed

lemma find_loop_first:
  "\<forall>y\<in>set ys. \<not> fst (call c y) \<Longrightarrow> fst (call c x) \<Longrightarrow> find_loop c (ys @ x # zs) = x"
proof (induction ys arbitrary: c)
  case Nil
  then show ?case by (simp add: split_beta Let_def)
next
  case (Cons y ys)
  have "\<forall>u\<in>set ys. \<not> fst (call (snd (call c y)) u)"
    using Cons.prems by (simp add: call_again)
  moreover have "fst (call (snd (call c y)) x)"
    using Cons.prems by (simp add: call_again)
  ultimately have "find_loop (snd (call c y)) (ys @ x # zs) = x" by (rule Cons.IH)
  with Cons.prems show ?case by (simp add: split_beta Let_def)
qed

lemma index_append: "v \<notin> set pre \<Longrightarrow> index (pre @ v # post) v = length pre"
  by (induction pre) auto

lemma call_List_f_noblank:
  "VBlank \<notin> set args \<Longrightarrow> fst (call (List_f f args kwargs) x) = f (x # args) kwargs"
  by (simp add: List_f_def)

lemma call_List_f_blank:
  "VBlank \<notin> set pre \<Longrightarrow>
   fst (call (List_f f (pre @ VBlank # post) kwargs) x) = f (pre @ x # post) kwargs"
  by (simp add: List_f_def index_append Let_def)

lemma call_List_f_not_fn:
  "fst (call (List_f (not_fn p) args kwargs) x) = (\<not> fst (call (List_f p args kwargs) x))"
  by (simp add: List_f_def not_fn_def Let_def)

section \<open>The store after an operation\<close>

lemma set_list_items_simps:
  "next_list (set_list_items a xs h) = next_list h"
  "next_dict (set_list_items a xs h) = next_dict h"
  "dict_objs (set_list_items a xs h) = dict_objs h"
  "list_items (list_objs (set_list_items a xs h) a) = xs"
  "b \<noteq> a \<Longrightarrow> list_objs (set_list_items a xs h) b = list_objs h b"
  by (simp_all add: set_list_items_def)

lemma List_new_simps:
  "fst (List_new xs h) = next_list h"
  "next_list (snd (List_new xs h)) = Suc (next_list h)"
  "list_items (list_objs (snd (List_new xs h)) (next_list h)) = xs"
  "b \<noteq> next_list h \<Longrightarrow> list_objs (snd (List_new xs h)) b = list_objs h b"
  by (simp_all add: List_new_def)

lemma Dict_init_simps:
  "fst (Dict_init items h) = next_dict h"
  "next_dict (snd (Dict_init items h)) = Suc (next_dict h)"
  "dict_objs (snd (Dict_init items h)) (next_dict h)
     = \<lparr>dict_entries = dict_of_items items, moka_save = False, dict_last_value = None\<rparr>"
  "b \<noteq> next_dict h \<Longrightarrow> dict_objs (snd (Dict_init items h)) b = dict_objs h b"
  "list_objs (snd (Dict_init items h)) = list_objs h"
  by (simp_all add: Dict_init_def)

lemma heap_list12_simps:
  "next_list heap_list12 = 1"
  "list_items (list_objs heap_list12 0) = [VInt 1, VInt 2]"
  by (simp_all add: heap_list12_def heap_empty_def List_new_def)

lemma heap_dict15_simps:
  "next_dict heap_dict15 = 1"
  "dict_entries (dict_objs heap_dict15 0) = [(KInt 1, VInt 5)]"
  "\<not> moka_save (dict_objs heap_dict15 0)"
  "next_dict heap_dict15_saved = 1"
  "dict_entries (dict_objs heap_dict15_saved 0) = [(KInt 1, VInt 5)]"
  "moka_save (dict_objs heap_dict15_saved 0)"
  by (simp_all add: heap_dict15_saved_def set_moka_save_def heap_dict15_def heap_list12_def
        heap_empty_def List_new_def Dict_init_def dict_of_items_def)

section \<open>The claims on the binder\<close>

text \<open>
  C6: when none of the extra arguments is the placeholder (also when there is no extra
  argument at all), the callable made by the binder, called on a runtime value \<open>x\<close>,
  returns \<open>f(x, *args, **kwargs)\<close>: the runtime value comes first, before the bound
  arguments. This holds for every call of the same callable, and in particular binding
  \<open>add\<close> to 10 and calling the result on 5 gives \<open>add(5, 10)\<close>.
\<close>

theorem binder_prepends_runtime_value:
  "VBlank \<notin> set args \<Longrightarrow>
     fst (call (List_f f args kwargs) x) = f (x # args) kwargs
   \<and> fst (calls (List_f f args kwargs) xs) = map (\<lambda>x. f (x # args) kwargs) xs
   \<and> fst (call (List_f add_fn [VInt 10] []) (VInt 5)) = add_fn [VInt 5, VInt 10] []"
  by (simp add: calls_map call_List_f_noblank)

theorem binder_prepends_runtime_value_witness:
  "VBlank \<notin> set [VInt 10]
   \<and> fst (call (List_f add_fn [VInt 10] []) (VInt 5)) = Some (VInt 15)
   \<and> fst (calls (List_f add_fn [VInt 10] []) [VInt 1, VInt 2])
       = [Some (VInt 11), Some (VInt 12)]"
  using binder_prepends_runtime_value
          [of "[VInt 10]" add_fn "[]" "VInt 5" "[VInt 1, VInt 2]"]
  by (simp add: add_fn_def)

text \<open>
  C5, as amended: when the bound positional arguments hold the placeholder exactly once,
  the callable made by the binder, called on a runtime value \<open>x\<close>, puts \<open>x\<close> in the place of
  the placeholder and returns \<open>f\<close> of the arguments so obtained, on every call. In
  particular binding \<open>divide\<close> to \<open>(10, placeholder)\<close> and calling the result on 2 gives
  \<open>divide(10, 2)\<close>.
\<close>

theorem binder_substitutes_at_placeholder:
  "VBlank \<notin> set pre \<Longrightarrow> VBlank \<notin> set post \<Longrightarrow>
     fst (call (List_f f (pre @ VBlank # post) kwargs) x) = f (pre @ x # post) kwargs
   \<and> fst (calls (List_f f (pre @ VBlank # post) kwargs) xs)
       = map (\<lambda>x. f (pre @ x # post) kwargs) xs
   \<and> fst (call (List_f divide_fn [VInt 10, VBlank] []) (VInt 2))
       = divide_fn [VInt 10, VInt 2] []"
  by (simp add: calls_map call_List_f_blank
        call_List_f_blank [of "[VInt 10]" _ "[]", simplified])

theorem binder_substitutes_at_placeholder_witness:
  "VBlank \<notin> set [VInt 10] \<and> VBlank \<notin> set []
   \<and> fst (call (List_f divide_fn ([VInt 10] @ VBlank # []) []) (VInt 2)) = Some (VInt 5)
   \<and> fst (calls (List_f divide_fn ([VInt 10] @ VBlank # []) []) [VInt 2, VInt 5])
       = [Some (VInt 5), Some (VInt 2)]"
  using binder_substitutes_at_placeholder
          [of "[VInt 10]" "[]" divide_fn "[]" "VInt 2" "[VInt 2, VInt 5]"]
  by (simp add: divide_fn_def)

text \<open>
  C5 as it is written asks for \<open>divide(2, 10)\<close> in that example. The callable returns
  \<open>divide(10, 2)\<close>, which is 5, and \<open>divide(2, 10)\<close> is 0.
\<close>

theorem binder_placeholder_divide_counterexample:
  "fst (call (List_f divide_fn [VInt 10, VBlank] []) (VInt 2))
     \<noteq> divide_fn [VInt 2, VInt 10] []"
  by (simp add: List_f_def divide_fn_def Let_def)

section \<open>The claims on the sequence chain\<close>

text \<open>
  C1, as amended: \<open>map\<close> assigns \<open>f(x)\<close> for each element \<open>x\<close> of the receiver, in order, to
  the receiver itself and returns the receiver; \<open>keep\<close> and \<open>rem\<close> assign to the receiver its
  elements on which the predicate holds, or does not hold, and return the receiver. The
  assignment replaces the elements of the receiver and makes no new container: the next
  free address stays what it was.
\<close>

theorem List_transforms_write_receiver:
  "List_map f args kwargs self h
     = (self, set_list_items self
                (map (\<lambda>x. fst (call (List_f f args kwargs) x)) (list_items (list_objs h self))) h)
   \<and> List_keep p args kwargs self h
     = (self, set_list_items self
                (filter (\<lambda>x. fst (call (List_f p args kwargs) x)) (list_items (list_objs h self))) h)
   \<and> List_rem p args kwargs self h
     = (self, set_list_items self
                (filter (\<lambda>x. \<not> fst (call (List_f p args kwargs) x)) (list_items (list_objs h self))) h)
   \<and> list_items (list_objs (set_list_items self xs h) self) = xs
   \<and> next_list (set_list_items self xs h) = next_list h"
  by (simp add: List_map_def List_keep_def List_rem_def List_moka_assign_def
        calls_map keep_gen_filter rem_gen_filter set_list_items_simps)

theorem List_transforms_write_receiver_witness:
  "List_map inc_fn [] [] 0 heap_list12 = (0, set_list_items 0 [VInt 2, VInt 3] heap_list12)
   \<and> List_keep positive_fn [] [] 0 heap_list12 = (0, set_list_items 0 [VInt 1, VInt 2] heap_list12)
   \<and> List_rem positive_fn [] [] 0 heap_list12 = (0, set_list_items 0 [] heap_list12)"
  using List_transforms_write_receiver [of inc_fn "[]" "[]" 0 heap_list12 positive_fn]
  by (simp add: heap_list12_simps List_f_def inc_fn_def positive_fn_def)

text \<open>
  C1 as it is written asks \<open>map\<close> for a new container and an unchanged receiver. On
  \<open>List([1, 2])\<close> and the successor function, \<open>map\<close> returns the receiver, whose elements
  are no longer the ones it had.
\<close>

theorem List_map_new_container_counterexample:
  "fst (List_map inc_fn [] [] 0 heap_list12) = 0
   \<and> list_items (list_objs (snd (List_map inc_fn [] [] 0 heap_list12)) 0)
       \<noteq> list_items (list_objs heap_list12 0)"
  by (simp add: List_map_def List_moka_assign_def set_list_items_simps heap_list12_simps
        calls_map List_f_def inc_fn_def)




text \<open>
  C7: \<open>empty()\<close> holds exactly when the list has no element; \<open>empty(pred)\<close> holds exactly
  when every element satisfies the predicate; and \<open>all(pred)\<close> holds exactly when
  \<open>keep(not pred)\<close> followed by \<open>empty()\<close> does.
\<close>

theorem List_empty_is_all:
  "(List_empty None self h \<longleftrightarrow> list_items (list_objs h self) = [])
   \<and> (List_empty (Some (p, args, kwargs)) self h \<longleftrightarrow>
        (\<forall>x\<in>set (list_items (list_objs h self)). fst (call (List_f p args kwargs) x)))
   \<and> (List_all p args kwargs self h \<longleftrightarrow>
        (let (k, h') = List_keep (not_fn p) args kwargs self h in List_empty None k h'))"
  by (simp add: List_empty_def List_all_def List_keep_def List_moka_assign_def
        empty_loop_iff all_loop_iff keep_gen_filter set_list_items_simps
        call_List_f_not_fn filter_empty_conv)

theorem List_empty_is_all_witness:
  "\<not> List_empty None 0 heap_list12
   \<and> List_empty (Some (positive_fn, [], [])) 0 heap_list12
   \<and> List_all positive_fn [] [] 0 heap_list12
   \<and> (let (k, h') = List_keep (not_fn positive_fn) [] [] 0 heap_list12 in List_empty None k h')"
  using List_empty_is_all [of 0 heap_list12 positive_fn "[]" "[]"]
  by (simp add: heap_list12_simps List_all_def List_f_def positive_fn_def)

text \<open>
  C8: \<open>keep(pred)\<close> followed by \<open>count()\<close> gives the same number as \<open>count(pred)\<close>, the
  number of elements that satisfy the predicate.
\<close>

theorem List_keep_count:
  "(let (k, h') = List_keep p args kwargs self h in fst (List_count None k h'))
     = fst (List_count (Some (p, args, kwargs)) self h)
   \<and> fst (List_count (Some (p, args, kwargs)) self h)
     = length (filter (\<lambda>x. fst (call (List_f p args kwargs) x)) (list_items (list_objs h self)))"
  by (simp add: List_keep_def List_moka_assign_def List_clone_def split_beta
        keep_gen_filter set_list_items_simps List_new_simps)

theorem List_keep_count_witness:
  "(let (k, h') = List_keep positive_fn [] [] 0 heap_list12 in fst (List_count None k h')) = 2
   \<and> fst (List_count (Some (positive_fn, [], [])) 0 heap_list12) = 2"
  using List_keep_count [of positive_fn "[]" "[]" 0 heap_list12]
  by (simp add: heap_list12_simps List_f_def positive_fn_def)

text \<open>
  C9: when an element \<open>x\<close> satisfies the predicate and no element before it does,
  \<open>find(pred)\<close> returns \<open>x\<close>, whatever comes after \<open>x\<close>; when no element satisfies the
  predicate, \<open>find(pred)\<close> returns \<open>None\<close>. It is a value in both cases, not an error.
\<close>

theorem List_find_first_or_none:
  "(list_items (list_objs h self) = ys @ x # zs
      \<and> (\<forall>y\<in>set ys. \<not> fst (call (List_f p args kwargs) y))
      \<and> fst (call (List_f p args kwargs) x)
      \<longrightarrow> List_find p args kwargs self h = x)
   \<and> ((\<forall>y\<in>set (list_items (list_objs h self)). \<not> fst (call (List_f p args kwargs) y))
      \<longrightarrow> List_find p args kwargs self h = VNone)"
  by (simp add: List_find_def find_loop_first find_loop_none)

theorem List_find_first_or_none_witness:
  "list_items (list_objs heap_list12 0) = [] @ VInt 1 # [VInt 2]
   \<and> fst (call (List_f positive_fn [] []) (VInt 1))
   \<and> List_find positive_fn [] [] 0 heap_list12 = VInt 1
   \<and> \<not> fst (call (List_f never_fn [] []) (VInt 1))
   \<and> \<not> fst (call (List_f never_fn [] []) (VInt 2))
   \<and> List_find never_fn [] [] 0 heap_list12 = VNone"
  using List_find_first_or_none [of heap_list12 0 "[]" "VInt 1" "[VInt 2]" positive_fn "[]" "[]"]
        List_find_first_or_none [of heap_list12 0 "[]" "VInt 1" "[VInt 2]" never_fn "[]" "[]"]
  by (simp add: heap_list12_simps List_f_def positive_fn_def never_fn_def)

section \<open>The claims on \<^verbatim>\<open>do\<close> and on the mapping chain\<close>

text \<open>
  C3, as amended: \<open>List.do(f, *args)\<close> returns the result of \<open>f\<close> on the receiver and the
  extra arguments, the receiver first, or in the place of the placeholder when there is
  one. \<open>Dict.do(f, *args)\<close> calls \<open>f\<close> on the receiver followed by the extra arguments, keeps
  the result in \<open>last_value\<close> and returns the receiver, whose entries are unchanged.
\<close>

theorem do_returns:
  "(VBlank \<notin> set args \<longrightarrow> List_do f args kwargs self h = f (VList self # args) kwargs)
   \<and> (VBlank \<notin> set pre \<longrightarrow>
        List_do f (pre @ VBlank # post) kwargs self h = f (pre @ VList self # post) kwargs)
   \<and> fst (Dict_do g args kwargs d h) = d
   \<and> dict_last_value (dict_objs (snd (Dict_do g args kwargs d h)) d)
       = Some (g (VDict d # args) kwargs)
   \<and> dict_entries (dict_objs (snd (Dict_do g args kwargs d h)) d)
       = dict_entries (dict_objs h d)"
  by (simp add: List_do_def Dict_do_def call_List_f_noblank call_List_f_blank)

theorem do_returns_witness:
  "VBlank \<notin> set [VInt 7]
   \<and> List_do const_none_fn [VInt 7] [] 0 heap_dict15 = VNone
   \<and> VBlank \<notin> set []
   \<and> List_do (\<lambda>args kwargs. args) ([] @ VBlank # [VInt 7]) [] 0 heap_dict15 = [VList 0, VInt 7]
   \<and> fst (Dict_do const_none_fn [VInt 7] [] 0 heap_dict15) = 0
   \<and> dict_last_value (dict_objs (snd (Dict_do const_none_fn [VInt 7] [] 0 heap_dict15)) 0)
       = Some VNone"
  using do_returns [of "[VInt 7]" const_none_fn "[]" 0 heap_dict15 "[]" _ const_none_fn 0]
        do_returns [of "[VInt 7]" "\<lambda>args kwargs. args" "[]" 0 heap_dict15 "[]" "[VInt 7]"]
  by (simp add: const_none_fn_def List_do_def List_f_def)

text \<open>
  C3 as it is written asks \<open>do\<close> on a mapping for the result of the function. With a
  function that returns \<open>None\<close>, \<open>Dict.do\<close> returns the receiver, which is not \<open>None\<close>.
\<close>

theorem Dict_do_returns_receiver_counterexample:
  "fst (Dict_do const_none_fn [] [] 0 heap_dict15) = 0
   \<and> VDict (fst (Dict_do const_none_fn [] [] 0 heap_dict15)) \<noteq> const_none_fn [VDict 0] []"
  by (simp add: Dict_do_def const_none_fn_def)

text \<open>
  C2, as amended: when \<open>_moka_save\<close> is set on the receiver, \<open>map\<close>, \<open>keep\<close> and \<open>rem\<close> return
  \<open>None\<close> and leave the whole store, the receiver included, as it was. When it is not set,
  they return a new \<open>Dict\<close> made from the pairs \<open>f\<close> returns, or from the entries on which the
  predicate holds, or does not hold; the entries of a new \<open>Dict\<close> are those \<open>dict\<close> builds
  from the pairs.
\<close>

theorem Dict_transforms_by_flag:
  "(moka_save (dict_objs h self) \<longrightarrow>
      Dict_map f args kwargs self h = (None, h)
      \<and> Dict_keep p args kwargs self h = (None, h)
      \<and> Dict_rem p args kwargs self h = (None, h))
   \<and> (\<not> moka_save (dict_objs h self) \<longrightarrow>
      Dict_map f args kwargs self h
        = (let (d, h') = Dict_init (map (\<lambda>(x, y). f (val_of_key x # y # args) kwargs)
                                        (dict_entries (dict_objs h self))) h
           in (Some d, h'))
      \<and> Dict_keep p args kwargs self h
        = (let (d, h') = Dict_init (filter (\<lambda>(x, y). p (val_of_key x # y # args) kwargs)
                                        (dict_entries (dict_objs h self))) h
           in (Some d, h'))
      \<and> Dict_rem p args kwargs self h
        = (let (d, h') = Dict_init (filter (\<lambda>(x, y). \<not> p (val_of_key x # y # args) kwargs)
                                        (dict_entries (dict_objs h self))) h
           in (Some d, h')))
   \<and> dict_entries (dict_objs (snd (Dict_init items h)) (fst (Dict_init items h)))
       = dict_of_items items"
  by (simp add: Dict_map_def Dict_keep_def Dict_rem_def Dict_moka_assign_def Dict_f_def
        Dict_init_simps)

theorem Dict_transforms_by_flag_witness:
  "moka_save (dict_objs heap_dict15_saved 0)
   \<and> Dict_keep never_fn [] [] 0 heap_dict15_saved = (None, heap_dict15_saved)
   \<and> Dict_rem never_fn [] [] 0 heap_dict15_saved = (None, heap_dict15_saved)
   \<and> \<not> moka_save (dict_objs heap_dict15 0)
   \<and> fst (Dict_keep never_fn [] [] 0 heap_dict15) = Some 1
   \<and> dict_entries (dict_objs (snd (Dict_keep never_fn [] [] 0 heap_dict15)) 1) = []
   \<and> fst (Dict_rem never_fn [] [] 0 heap_dict15) = Some 1
   \<and> dict_entries (dict_objs (snd (Dict_rem never_fn [] [] 0 heap_dict15)) 1) = [(KInt 1, VInt 5)]"
  using Dict_transforms_by_flag [of heap_dict15_saved 0 "\<lambda>_ _. (KNone, VNone)" "[]" "[]" never_fn "[]"]
        Dict_transforms_by_flag [of heap_dict15 0 "\<lambda>_ _. (KNone, VNone)" "[]" "[]" never_fn "[]"]
  by (simp add: heap_dict15_simps never_fn_def split_beta Dict_init_def dict_of_items_def)

text \<open>
  C2 as it is written asks that a receiver with \<open>_moka_save\<close> set holds the filtered
  entries afterwards. On \<open>{1: 5}\<close> with the flag set and a predicate that holds of
  nothing, the filtered entries are none, and the receiver still holds its entry.
\<close>

theorem Dict_keep_in_place_counterexample:
  "moka_save (dict_objs heap_dict15_saved 0)
   \<and> filter (\<lambda>(x, y). Dict_f never_fn [] [] x y) (dict_entries (dict_objs heap_dict15_saved 0)) = []
   \<and> dict_entries (dict_objs (snd (Dict_keep never_fn [] [] 0 heap_dict15_saved)) 0)
       = [(KInt 1, VInt 5)]"
  by (simp add: Dict_keep_def Dict_moka_assign_def heap_dict15_simps Dict_f_def never_fn_def)

text \<open>
  C10: on an existing \<open>Dict\<close> whose \<open>_moka_save\<close> is not set, each of \<open>map\<close>, \<open>keep\<close> and \<open>rem\<close>
  returns a \<open>Dict\<close> at an address that was free before, so not the receiver. The receiver
  and every other \<open>Dict\<close> that existed are unchanged, and the flag of the new one is not
  set.
\<close>

theorem Dict_transforms_leave_receiver:
  "self < next_dict h \<Longrightarrow> \<not> moka_save (dict_objs h self) \<Longrightarrow>
   \<forall>res \<in> {Dict_map f args kwargs self h, Dict_keep p args kwargs self h,
             Dict_rem p args kwargs self h}.
     fst res = Some (next_dict h) \<and> next_dict h \<noteq> self
     \<and> dict_objs (snd res) self = dict_objs h self
     \<and> (\<forall>a<next_dict h. dict_objs (snd res) a = dict_objs h a)
     \<and> \<not> moka_save (dict_objs (snd res) (next_dict h))
     \<and> next_dict (snd res) = Suc (next_dict h)"
  by (simp add: Dict_map_def Dict_keep_def Dict_rem_def Dict_moka_assign_def split_beta
        Dict_init_simps)

theorem Dict_transforms_leave_receiver_witness:
  "(0::nat) < next_dict heap_dict15 \<and> \<not> moka_save (dict_objs heap_dict15 0)
   \<and> fst (Dict_keep never_fn [] [] 0 heap_dict15) = Some 1
   \<and> dict_entries (dict_objs (snd (Dict_keep never_fn [] [] 0 heap_dict15)) 0) = [(KInt 1, VInt 5)]
   \<and> dict_entries (dict_objs (snd (Dict_rem never_fn [] [] 0 heap_dict15)) 0) = [(KInt 1, VInt 5)]
   \<and> dict_entries (dict_objs (snd (Dict_map (\<lambda>_ _. (KNone, VNone)) [] [] 0 heap_dict15)) 0)
       = [(KInt 1, VInt 5)]"
  using Dict_transforms_leave_receiver [of 0 heap_dict15 "\<lambda>_ _. (KNone, VNone)" "[]" "[]" never_fn]
  by (simp add: heap_dict15_simps)

end
